theory Spec2Isabelle
  imports Complex_Main
begin

section \<open>Firestore document editor (components/Firestore/DocumentEditor/index.tsx)\<close>

subsection \<open>Field values and field types\<close>

text \<open>
  Modelled from the spec: the union type \<open>FirestoreAny\<close> is declared in \<open>../models\<close>, which is
  not part of the sources at hand. The spec calls a field value a tagged value with six leaf
  kinds (string, number, boolean, geopoint, timestamp, reference) beside map, array and null.
  A map keeps its entries in the order \<open>Object.keys\<close> enumerates them, so it is an association
  list; the payloads of the SDK classes (timestamp, geopoint, reference) are never inspected
  by the editor and are kept as plain data.
\<close>

datatype FirestoreAny =
    FString string
  | FNumber real
  | FBoolean bool
  | FNull
  | FTimestamp int int
  | FGeoPoint real real
  | FReference string
  | FArray "FirestoreAny list"
  | FMap "(string \<times> FirestoreAny) list"

text \<open>
  Modelled from the spec: the enum \<open>FieldType\<close> is declared in \<open>../models\<close>. The nine members
  below are the ones this file names; \<open>OTHER\<close> stands for any further member of the enum.
\<close>

datatype FieldType =
    STRING | NUMBER | BOOLEAN | MAP | ARRAY | NULL | TIMESTAMP | GEOPOINT | REFERENCE
  | OTHER string

definition FIRESTORE_FIELD_TYPES :: "FieldType list" where
  "FIRESTORE_FIELD_TYPES =
     [STRING, NUMBER, BOOLEAN, MAP, ARRAY, NULL, TIMESTAMP, GEOPOINT, REFERENCE]"

definition RTDB_FIELD_TYPES :: "FieldType list" where
  "RTDB_FIELD_TYPES = [STRING, NUMBER, BOOLEAN, MAP, ARRAY]"

definition supportedFieldTypeSet :: "FieldType set" where
  "supportedFieldTypeSet = set FIRESTORE_FIELD_TYPES"

text \<open>
  \<open>supportsEditing\<close> asks the helper \<open>getFieldType\<close> of \<open>../utils\<close> for the type of the
  value. The helper is not part of the sources at hand and is taken as a parameter; a state
  is \<open>None\<close> where JavaScript has \<open>undefined\<close>.
\<close>

definition supportsEditing :: "('v \<Rightarrow> FieldType) \<Rightarrow> 'v \<Rightarrow> bool" where
  "supportsEditing getFieldType v \<longleftrightarrow> getFieldType v \<in> supportedFieldTypeSet"

subsection \<open>Paths, keys and the helpers of \<open>../utils\<close>\<close>

type_synonym path = "string list"

text \<open>
  The template literal \<open>`${index}`\<close> of an array index (a non-negative integer) is its
  decimal representation without leading zeros.
\<close>

definition digit_char :: "nat \<Rightarrow> char" where
  "digit_char d = char_of (48 + d)"

fun toString :: "nat \<Rightarrow> string" where
  "toString n =
     (if n < 10 then [digit_char n] else toString (n div 10) @ [digit_char (n mod 10)])"

declare toString.simps [simp del]

text \<open>
  Modelled from the spec: the type guards \<open>isString\<close>, \<open>isNumber\<close>, \<open>isBoolean\<close>,
  \<open>isGeoPoint\<close>, \<open>isTimestamp\<close>, \<open>isReference\<close>, \<open>isMap\<close>, \<open>isArray\<close> and \<open>isPrimitive\<close>
  are defined in \<open>../utils\<close>, which is not part of the sources at hand. Following the spec
  (type dispatch on a tagged value), each guard tests the tag of the value; the state of a
  path that does not exist (\<open>undefined\<close>, here \<open>None\<close>) passes no guard. A primitive value
  is one that has no child fields: neither a map nor an array.
\<close>

definition isString :: "FirestoreAny option \<Rightarrow> bool" where
  "isString state = (case state of Some (FString _) \<Rightarrow> True | _ \<Rightarrow> False)"

definition isNumber :: "FirestoreAny option \<Rightarrow> bool" where
  "isNumber state = (case state of Some (FNumber _) \<Rightarrow> True | _ \<Rightarrow> False)"

definition isBoolean :: "FirestoreAny option \<Rightarrow> bool" where
  "isBoolean state = (case state of Some (FBoolean _) \<Rightarrow> True | _ \<Rightarrow> False)"

definition isGeoPoint :: "FirestoreAny option \<Rightarrow> bool" where
  "isGeoPoint state = (case state of Some (FGeoPoint _ _) \<Rightarrow> True | _ \<Rightarrow> False)"

definition isTimestamp :: "FirestoreAny option \<Rightarrow> bool" where
  "isTimestamp state = (case state of Some (FTimestamp _ _) \<Rightarrow> True | _ \<Rightarrow> False)"

definition isReference :: "FirestoreAny option \<Rightarrow> bool" where
  "isReference state = (case state of Some (FReference _) \<Rightarrow> True | _ \<Rightarrow> False)"

definition isMap :: "FirestoreAny option \<Rightarrow> bool" where
  "isMap state = (case state of Some (FMap _) \<Rightarrow> True | _ \<Rightarrow> False)"

definition isArray :: "FirestoreAny option \<Rightarrow> bool" where
  "isArray state = (case state of Some (FArray _) \<Rightarrow> True | _ \<Rightarrow> False)"

definition isPrimitive :: "FirestoreAny option \<Rightarrow> bool" where
  "isPrimitive state \<longleftrightarrow> \<not> isMap state \<and> \<not> isArray state"

text \<open>
  \<open>Object.keys\<close> of a map state and the elements of an array state, as the two branches of
  \<open>NestedEditor\<close> read them after the guard has narrowed the type.
\<close>

definition Object_keys :: "FirestoreAny option \<Rightarrow> string list" where
  "Object_keys state = (case state of Some (FMap kvs) \<Rightarrow> map fst kvs | _ \<Rightarrow> [])"

definition array_elements :: "FirestoreAny option \<Rightarrow> FirestoreAny list" where
  "array_elements state = (case state of Some (FArray xs) \<Rightarrow> xs | _ \<Rightarrow> [])"

text \<open>
  Reading the property \<open>k\<close> of an array: the element at index \<open>i\<close> when \<open>k\<close> is the
  decimal string of an index \<open>i\<close> in range, \<open>undefined\<close> otherwise.
\<close>

definition array_get :: "FirestoreAny list \<Rightarrow> string \<Rightarrow> FirestoreAny option" where
  "array_get xs k =
     (case filter (\<lambda>i. toString i = k) [0..<length xs] of
        [] \<Rightarrow> None
      | i # _ \<Rightarrow> Some (xs ! i))"

text \<open>
  Modelled from the spec: the hook \<open>useFieldState\<close> is defined in \<open>./store\<close>, which is not
  part of the sources at hand. It hands a component the field found at its path in the
  document held by the store: the walk from the document root along the path, through map
  keys and array indices; \<open>undefined\<close> (\<open>None\<close>) when the path leaves the document.
\<close>

fun useFieldState :: "FirestoreAny \<Rightarrow> path \<Rightarrow> FirestoreAny option" where
  "useFieldState v [] = Some v"
| "useFieldState (FMap kvs) (k # ks) =
     (case map_of kvs k of None \<Rightarrow> None | Some c \<Rightarrow> useFieldState c ks)"
| "useFieldState (FArray xs) (k # ks) =
     (case array_get xs k of None \<Rightarrow> None | Some c \<Rightarrow> useFieldState c ks)"
| "useFieldState _ (k # ks) = None"

text \<open>
  The helpers \<open>getFieldType\<close> and \<open>lastFieldName\<close> of \<open>../utils\<close> only label what is
  rendered; they are parameters of the model.
\<close>

record utils =
  getFieldType :: "FirestoreAny option \<Rightarrow> FieldType"
  lastFieldName :: "path \<Rightarrow> string"

subsection \<open>Actions and rendered elements\<close>

text \<open>The action creators of \<open>./actions\<close>, each with its payload.\<close>

datatype action =
    addField path FirestoreAny
  | updateField path FirestoreAny
  | updateKey path string
  | updateType path FieldType
  | deleteField path

text \<open>A leaf editor element with its props \<open>value\<close> and \<open>onChange\<close>.\<close>

datatype LeafEditor =
    StringEditor "FirestoreAny option" "FirestoreAny \<Rightarrow> action"
  | NumberEditor "FirestoreAny option" "FirestoreAny \<Rightarrow> action"
  | BooleanEditor "FirestoreAny option" "FirestoreAny \<Rightarrow> action"
  | GeoPointEditor "FirestoreAny option" "FirestoreAny \<Rightarrow> action"
  | TimestampEditor "FirestoreAny option" "FirestoreAny \<Rightarrow> action"
  | ReferenceEditor "FirestoreAny option" "FirestoreAny \<Rightarrow> action"

text \<open>
  The key text field: its value, the \<open>readOnly\<close> and \<open>disabled\<close> flags, whether the
  change handler (which stores the typed text in the component's \<open>key\<close> state) is attached,
  and the action the blur handler dispatches.
\<close>

record TextField =
  tf_value :: string
  tf_readOnly :: bool
  tf_disabled :: bool
  tf_onChange :: bool
  tf_onBlur :: "action option"

record Select =
  sel_options :: "FieldType list"
  sel_value :: FieldType
  sel_onChange :: "FieldType \<Rightarrow> action"

text \<open>
  What one \<open>NestedEditor\<close> renders on mount, together with the props it was given: the key
  field, the type selector, the fragment of leaf editors, the action behind each icon
  button that is present, and the child editors (\<open>None\<close> where the source leaves them \<open>null\<close>).
\<close>

datatype Rendered = Rendered
  (props_path: path)
  (props_isKeyMutable: bool)
  (props_isRtdb: "bool option")
  (textField: TextField)
  (select: Select)
  (rendered_fieldEditor: "LeafEditor list")
  (addMapFieldButton: "action option")
  (addArrayFieldButton: "action option")
  (removeFieldButton: "action option")
  (rendered_childEditors: "Rendered list option")

subsection \<open>\<open>NestedEditor\<close>\<close>

definition handleEditValue :: "path \<Rightarrow> FirestoreAny \<Rightarrow> action" where
  "handleEditValue path v = updateField path v"

text \<open>The six conditionally rendered leaf editors, in the order of the fragment.\<close>

definition fieldEditorOf :: "path \<Rightarrow> FirestoreAny option \<Rightarrow> LeafEditor list" where
  "fieldEditorOf path state =
     (if isString state then [StringEditor state (handleEditValue path)] else []) @
     (if isNumber state then [NumberEditor state (handleEditValue path)] else []) @
     (if isBoolean state then [BooleanEditor state (handleEditValue path)] else []) @
     (if isGeoPoint state then [GeoPointEditor state (handleEditValue path)] else []) @
     (if isTimestamp state then [TimestampEditor state (handleEditValue path)] else []) @
     (if isReference state then [ReferenceEditor state (handleEditValue path)] else [])"

definition keyField :: "path \<Rightarrow> bool \<Rightarrow> string \<Rightarrow> TextField" where
  "keyField path isKeyMutable key =
     (if isKeyMutable
      then \<lparr>tf_value = key, tf_readOnly = False, tf_disabled = False,
            tf_onChange = True, tf_onBlur = Some (updateKey path key)\<rparr>
      else \<lparr>tf_value = key, tf_readOnly = True, tf_disabled = True,
            tf_onChange = False, tf_onBlur = None\<rparr>)"

definition truthy :: "bool option \<Rightarrow> bool" where
  "truthy b = (b = Some True)"

definition typeSelect :: "utils \<Rightarrow> path \<Rightarrow> bool option \<Rightarrow> FirestoreAny option \<Rightarrow> Select" where
  "typeSelect u path isRtdb state =
     \<lparr>sel_options = (if truthy isRtdb then RTDB_FIELD_TYPES else FIRESTORE_FIELD_TYPES),
      sel_value = getFieldType u state,
      sel_onChange = (\<lambda>t. updateType path t)\<rparr>"

function (domintros) NestedEditor :: "utils \<Rightarrow> FirestoreAny \<Rightarrow> path \<Rightarrow> bool \<Rightarrow> bool option \<Rightarrow> Rendered" where
  "NestedEditor u doc path isKeyMutable isRtdb =
     (let state = useFieldState doc path;
          key = lastFieldName u path;
          childEditors =
            (if isMap state then
               Some (map (\<lambda>childLeaf. NestedEditor u doc (path @ [childLeaf]) True None)
                         (Object_keys state))
             else if isArray state then
               Some (map (\<lambda>(value, index).
                            NestedEditor u doc (path @ [toString index]) False None)
                         (zip (array_elements state) [0..<length (array_elements state)]))
             else None)
      in Rendered path isKeyMutable isRtdb
           (keyField path isKeyMutable key)
           (typeSelect u path isRtdb state)
           (fieldEditorOf path state)
           (if isMap state then Some (addField (path @ ['''']) (FString '''')) else None)
           (if isArray state
            then Some (addField (path @ [toString (length path)]) (FString '''')) else None)
           (if length path > 1 \<and> isPrimitive state then Some (deleteField path) else None)
           childEditors)"
  by pat_completeness auto

text \<open>The size of the field a path leads to; no field counts as nothing.\<close>

definition state_size :: "FirestoreAny \<Rightarrow> path \<Rightarrow> nat" where
  "state_size doc path = (case useFieldState doc path of None \<Rightarrow> 0 | Some v \<Rightarrow> size v)"

text \<open>The fields directly below a value: the entries of a map, the elements of an array.\<close>

definition subvalues :: "FirestoreAny \<Rightarrow> FirestoreAny list" where
  "subvalues v = (case v of FMap kvs \<Rightarrow> map snd kvs | FArray xs \<Rightarrow> xs | _ \<Rightarrow> [])"

section \<open>Rules evaluation details (components/Firestore/Rules/EvaluationDetails.tsx)\<close>

subsection \<open>Data\<close>

text \<open>
  An object is held by reference: \<open>Object.is\<close>, which React uses to compare the
  dependencies of an effect, compares the references and not the contents.
\<close>

datatype 'a object = Object (ref: nat) (content: 'a)

text \<open>
  \<open>LineOutcome\<close> (\<open>./types\<close>) has the fields \<open>line\<close> and \<open>outcome\<close>. A granular allow
  outcome of the evaluation model (\<open>./rules_evaluation_result_model\<close>) is any record that
  has at least these two fields, and an evaluation any record with the optional field
  \<open>granularAllowOutcomes\<close>; the types of the fields are left open.
\<close>

record ('l, 'o) LineOutcome =
  line :: 'l
  outcome :: 'o

record 'g FirestoreRulesEvaluation =
  granularAllowOutcomes :: "'g list option"

text \<open>The action creator \<open>getRequestEvaluationById\<close> of the rules store, with its payload.\<close>

datatype rules_action = getRequestEvaluationById "string option"

record 'e PropsFromState =
  selectedEvaluation :: "'e object option"

record ('e, 'x) Props = "'e PropsFromState" +
  getEvaluationById :: "(string option \<Rightarrow> 'x) object"

record ('a, 'b, 'c, 'd, 'f) EvaluationDetailsHeader =
  hdr_requestTimeComplete :: 'a
  hdr_requestTimeFromNow :: 'b
  hdr_requestMethod :: 'c
  hdr_resourceSubPaths :: 'd
  hdr_outcomeData :: 'f

record ('l, 'o, 'r) EvaluationDetailsCode =
  code_linesOutcome :: "('l, 'o) LineOutcome list option"
  code_firestoreRules :: 'r

text \<open>
  The dependency array of the effect, each entry as \<open>Object.is\<close> sees it: the reference of
  the function, the string, and the reference of the selected evaluation (\<open>None\<close> for
  \<open>undefined\<close>).
\<close>

record effect_deps =
  dep_getEvaluationById :: nat
  dep_evaluationId :: string
  dep_selectedEvaluation :: "nat option"

text \<open>
  One render of the component: the two elements it returns, the results of the calls its
  effect made once the render was committed, and the dependencies React keeps for the
  next render.
\<close>

record ('a, 'b, 'c, 'd, 'f, 'l, 'o, 'r, 'x) rendering =
  header :: "('a, 'b, 'c, 'd, 'f) EvaluationDetailsHeader"
  code :: "('l, 'o, 'r) EvaluationDetailsCode"
  effect_calls :: "'x list"
  kept_deps :: effect_deps

subsection \<open>The component\<close>

text \<open>
  \<open>useEffect\<close>: the effect runs after the first render (no dependencies kept yet) and
  after every render where some dependency is not the one kept from the render before.
\<close>

definition useEffect :: "effect_deps option \<Rightarrow> effect_deps \<Rightarrow> 'x list \<Rightarrow> 'x list" where
  "useEffect kept deps effect = (if kept = Some deps then [] else effect)"

text \<open>\<open>selectedEvaluation?.granularAllowOutcomes?.map(...)\<close>\<close>

definition linesOutcomeOf ::
  "('l, 'o, 'z) LineOutcome_scheme FirestoreRulesEvaluation object option
     \<Rightarrow> ('l, 'o) LineOutcome list option" where
  "linesOutcomeOf selected =
     (case selected of
        None \<Rightarrow> None
      | Some evaluation \<Rightarrow>
          (case granularAllowOutcomes (content evaluation) of
             None \<Rightarrow> None
           | Some outcomes \<Rightarrow>
               Some (map (\<lambda>granularAllowOutcome.
                            \<lparr>line = line granularAllowOutcome,
                             outcome = outcome granularAllowOutcome\<rparr>) outcomes)))"

text \<open>
  The constant \<open>sampleRules\<close> (\<open>./sample-rules\<close>) and the hook \<open>useEvaluationCleanMainData\<close>
  (\<open>./utils\<close>) are not part of the sources at hand and are parameters; \<open>evaluationId\<close> is
  what \<open>useParams\<close> reads from the route, and \<open>kept\<close> the dependencies kept from the render
  before (\<open>None\<close> on mount).
\<close>

definition EvaluationDetails ::
  "'r \<Rightarrow>
   (('l, 'o, 'z) LineOutcome_scheme FirestoreRulesEvaluation object option
      \<Rightarrow> 'a \<times> 'b \<times> 'c \<times> 'd \<times> 'f) \<Rightarrow>
   (('l, 'o, 'z) LineOutcome_scheme FirestoreRulesEvaluation, 'x) Props \<Rightarrow>
   string \<Rightarrow> effect_deps option \<Rightarrow>
   ('a, 'b, 'c, 'd, 'f, 'l, 'o, 'r, 'x) rendering" where
  "EvaluationDetails sampleRules useEvaluationCleanMainData props evaluationId kept =
     (case useEvaluationCleanMainData (selectedEvaluation props) of
        (requestTimeComplete, requestTimeFromNow, requestMethod, resourceSubPaths,
         outcomeData) \<Rightarrow>
       let linesOutcome = linesOutcomeOf (selectedEvaluation props);
           deps = \<lparr>dep_getEvaluationById = ref (getEvaluationById props),
                   dep_evaluationId = evaluationId,
                   dep_selectedEvaluation = map_option ref (selectedEvaluation props)\<rparr>
       in \<lparr>header = \<lparr>hdr_requestTimeComplete = requestTimeComplete,
                       hdr_requestTimeFromNow = requestTimeFromNow,
                       hdr_requestMethod = requestMethod,
                       hdr_resourceSubPaths = resourceSubPaths,
                       hdr_outcomeData = outcomeData\<rparr>,
           code = \<lparr>code_linesOutcome = linesOutcome, code_firestoreRules = sampleRules\<rparr>,
           effect_calls =
             useEffect kept deps [content (getEvaluationById props) (Some evaluationId)],
           kept_deps = deps\<rparr>)"

subsection \<open>Connecting the component to the store\<close>

text \<open>
  Modelled from the spec: \<open>createStructuredSelector\<close> is exported by \<open>../../../store\<close>,
  which is not part of the sources at hand. Following the spec (selector composition, map
  state to props), the structured selector built from an object of selectors applies each
  selector to the state and returns the results under the same names; the object here has
  the one name \<open>selectedEvaluation\<close>.
\<close>

definition createStructuredSelector ::
  "('s \<Rightarrow> 'e object option) \<Rightarrow> 's \<Rightarrow> 'e PropsFromState" where
  "createStructuredSelector selectedEvaluation_selector state =
     \<lparr>selectedEvaluation = selectedEvaluation_selector state\<rparr>"

text \<open>
  The selector \<open>getSelectedRequestEvaluation\<close> (\<open>store/firestoreRules/selectors\<close>) is a
  parameter.
\<close>

definition mapStateToProps :: "('s \<Rightarrow> 'e object option) \<Rightarrow> 's \<Rightarrow> 'e PropsFromState" where
  "mapStateToProps getSelectedRequestEvaluation =
     createStructuredSelector getSelectedRequestEvaluation"

text \<open>
  \<open>mapDispatchToProps\<close> wraps the store's \<open>dispatch\<close>. The model returns the one field
  \<open>getEvaluationById\<close> of the object the source returns; \<open>r\<close> is the reference of the
  closure it creates.
\<close>

definition mapDispatchToProps ::
  "nat \<Rightarrow> (rules_action \<Rightarrow> 'x) \<Rightarrow> (string option \<Rightarrow> 'x) object" where
  "mapDispatchToProps r dispatch =
     Object r (\<lambda>selectedEvaluationId. dispatch (getRequestEvaluationById selectedEvaluationId))"

text \<open>
  \<open>connect(mapStateToProps, mapDispatchToProps)(EvaluationDetails)\<close>: the props of the
  component are the state props extended by the dispatch props.
\<close>

definition connect_props ::
  "('s \<Rightarrow> 'e object option) \<Rightarrow> nat \<Rightarrow> (rules_action \<Rightarrow> 'x) \<Rightarrow> 's \<Rightarrow> ('e, 'x) Props" where
  "connect_props getSelectedRequestEvaluation r dispatch state =
     PropsFromState.extend (mapStateToProps getSelectedRequestEvaluation state)
       (Props.fields (mapDispatchToProps r dispatch))"

section \<open>Sample inputs\<close>

text \<open>
  Instances of the parameters and a small document, used where a statement is evaluated
  at a concrete input. \<open>tagFieldType\<close> names the type after the tag of the value.
\<close>

definition tagFieldType :: "FirestoreAny option \<Rightarrow> FieldType" where
  "tagFieldType state =
     (case state of
        None \<Rightarrow> OTHER ''undefined''
      | Some (FString _) \<Rightarrow> STRING
      | Some (FNumber _) \<Rightarrow> NUMBER
      | Some (FBoolean _) \<Rightarrow> BOOLEAN
      | Some FNull \<Rightarrow> NULL
      | Some (FTimestamp _ _) \<Rightarrow> TIMESTAMP
      | Some (FGeoPoint _ _) \<Rightarrow> GEOPOINT
      | Some (FReference _) \<Rightarrow> REFERENCE
      | Some (FArray _) \<Rightarrow> ARRAY
      | Some (FMap _) \<Rightarrow> MAP)"

definition lastOrEmpty :: "path \<Rightarrow> string" where
  "lastOrEmpty p = (case rev p of [] \<Rightarrow> [] | k # _ \<Rightarrow> k)"

definition sample_utils :: utils where
  "sample_utils = \<lparr>getFieldType = tagFieldType, lastFieldName = lastOrEmpty\<rparr>"

definition sample_entries :: "(string \<times> FirestoreAny) list" where
  "sample_entries =
     [(''name'', FString ''Ada''),
      (''tags'', FArray [FString ''x'', FNull, FBoolean True]),
      (''home'', FMap [(''at'', FGeoPoint 1 2)])]"

definition sample_doc :: FirestoreAny where
  "sample_doc = FMap sample_entries"

definition sample_fields :: FirestoreAny where
  "sample_fields =
     FMap [(''s'', FString ''Ada''), (''n'', FNumber 3), (''b'', FBoolean False),
           (''g'', FGeoPoint 1 2), (''t'', FTimestamp 5 0),
           (''r'', FReference ''users/ada''), (''f'', FNull),
           (''m'', FMap [(''at'', FGeoPoint 1 2)]),
           (''a'', FArray [FString ''x'', FNull])]"

definition sample_granular :: "(nat, string) LineOutcome list" where
  "sample_granular =
     [\<lparr>line = 4, outcome = ''allow''\<rparr>, \<lparr>line = 9, outcome = ''deny''\<rparr>]"

definition sample_evaluation :: "(nat, string) LineOutcome FirestoreRulesEvaluation object" where
  "sample_evaluation = Object 7 \<lparr>granularAllowOutcomes = Some sample_granular\<rparr>"

definition sample_cleanMainData ::
  "(nat, string) LineOutcome FirestoreRulesEvaluation object option
     \<Rightarrow> string \<times> string \<times> string \<times> string list \<times> string" where
  "sample_cleanMainData selected =
     (''10:00:00'', ''a minute ago'', ''get'', [''users'', ''ada''],
      (case selected of None \<Rightarrow> ''none'' | Some _ \<Rightarrow> ''some''))"

definition sample_props ::
  "((nat, string) LineOutcome FirestoreRulesEvaluation, rules_action) Props" where
  "sample_props = connect_props id 1 id (Some sample_evaluation)"

definition sample_props_unselected ::
  "((nat, string) LineOutcome FirestoreRulesEvaluation, rules_action) Props" where
  "sample_props_unselected = connect_props id 1 id None"

section \<open>Properties of the document editor\<close>

subsection \<open>Array indices as keys\<close>

lemma digit_char_inj:
  assumes "a < 10" and "b < 10" and "digit_char a = digit_char b"
  shows "a = b"
proof -
  from assms(3) have "(of_char (char_of (48 + a)) :: nat) = of_char (char_of (48 + b))"
    by (simp add: digit_char_def)
  then have "(48 + a) mod 256 = (48 + b) mod 256"
    by (simp only: of_char_of)
  with assms(1,2) show ?thesis by simp
qed

lemma toString_small: "n < 10 \<Longrightarrow> toString n = [digit_char n]"
  by (subst toString.simps) simp

lemma toString_big:
  "\<not> n < 10 \<Longrightarrow> toString n = toString (n div 10) @ [digit_char (n mod 10)]"
  by (subst toString.simps) simp

lemma toString_nonempty: "toString n \<noteq> []"
  by (cases "n < 10") (simp_all add: toString_small toString_big)

lemma toString_inj: "toString m = toString n \<Longrightarrow> m = n"
proof (induction m arbitrary: n rule: toString.induct)
  case (1 m)
  show ?case
  proof (cases "m < 10")
    case small_m: True
    show ?thesis
    proof (cases "n < 10")
      case True
      with small_m "1.prems" have "digit_char m = digit_char n"
        by (simp add: toString_small)
      with small_m True show ?thesis
        by (simp add: digit_char_inj)
    next
      case False
      with small_m "1.prems" toString_nonempty [of "n div 10"] show ?thesis
        by (simp add: toString_small toString_big)
    qed
  next
    case big_m: False
    show ?thesis
    proof (cases "n < 10")
      case True
      with big_m "1.prems" toString_nonempty [of "m div 10"] show ?thesis
        by (simp add: toString_small toString_big)
    next
      case False
      with big_m "1.prems"
      have q: "toString (m div 10) = toString (n div 10)"
        and r: "digit_char (m mod 10) = digit_char (n mod 10)"
        by (simp_all add: toString_big)
      from "1.IH" [OF big_m q] have "m div 10 = n div 10" .
      moreover from r have "m mod 10 = n mod 10"
        by (intro digit_char_inj) simp_all
      ultimately show ?thesis
        by (metis div_mult_mod_eq)
    qed
  qed
qed

lemma filter_index_eq:
  "i < n \<Longrightarrow> filter (\<lambda>j. toString j = toString i) [0..<n] = [i]"
proof (induction n)
  case 0
  then show ?case by simp
next
  case (Suc n)
  show ?case
  proof (cases "i < n")
    case True
    then have "toString n \<noteq> toString i"
      using toString_inj [of n i] by auto
    with Suc.IH [OF True] show ?thesis by simp
  next
    case False
    with Suc.prems have "i = n" by simp
    moreover have "filter (\<lambda>j. toString j = toString n) [0..<n] = []"
    proof -
      have "toString j \<noteq> toString n" if "j < n" for j
        using that toString_inj [of j n] by auto
      then show ?thesis by (simp add: filter_empty_conv)
    qed
    ultimately show ?thesis by simp
  qed
qed

lemma array_get_index: "i < length xs \<Longrightarrow> array_get xs (toString i) = Some (xs ! i)"
  by (simp add: array_get_def filter_index_eq)

subsection \<open>The state of a child path\<close>

lemma useFieldState_append:
  "useFieldState doc (p @ q) =
     (case useFieldState doc p of None \<Rightarrow> None | Some v \<Rightarrow> useFieldState v q)"
  by (induction doc p rule: useFieldState.induct) (auto split: option.splits)

lemma size_map_entry: "(k, v) \<in> set kvs \<Longrightarrow> size v < size (FMap kvs)"
  by (induction kvs) auto

lemma size_array_element: "x \<in> set xs \<Longrightarrow> size x < size (FArray xs)"
  by (induction xs) auto

lemma map_of_key:
  "k \<in> set (map fst kvs) \<Longrightarrow> \<exists>v. map_of kvs k = Some v \<and> (k, v) \<in> set kvs"
  by (induction kvs) auto

lemma map_child_state:
  assumes "useFieldState doc p = Some (FMap kvs)" and "k \<in> set (map fst kvs)"
  shows "\<exists>v. useFieldState doc (p @ [k]) = Some v \<and> (k, v) \<in> set kvs"
  using assms map_of_key [of k kvs] by (auto simp: useFieldState_append)

lemma array_child_state:
  assumes "useFieldState doc p = Some (FArray xs)" and "i < length xs"
  shows "useFieldState doc (p @ [toString i]) = Some (xs ! i)"
  using assms by (simp add: useFieldState_append array_get_index)

lemma isMap_state: "isMap state \<Longrightarrow> \<exists>kvs. state = Some (FMap kvs)"
  by (auto simp: isMap_def split: option.splits FirestoreAny.splits)

lemma isArray_state: "isArray state \<Longrightarrow> \<exists>xs. state = Some (FArray xs)"
  by (auto simp: isArray_def split: option.splits FirestoreAny.splits)

lemma map_call_decreases:
  assumes "isMap (useFieldState doc path)"
    and "childLeaf \<in> set (Object_keys (useFieldState doc path))"
  shows "state_size doc (path @ [childLeaf]) < state_size doc path"
proof -
  from isMap_state [OF assms(1)] obtain kvs
    where s: "useFieldState doc path = Some (FMap kvs)" by blast
  with assms(2) have "childLeaf \<in> set (map fst kvs)"
    by (simp add: Object_keys_def)
  from map_child_state [OF s this] obtain v
    where "useFieldState doc (path @ [childLeaf]) = Some v" and "(childLeaf, v) \<in> set kvs"
    by blast
  with s size_map_entry [of childLeaf v kvs] show ?thesis
    by (simp add: state_size_def)
qed

lemma array_call_decreases:
  assumes "isArray (useFieldState doc path)"
    and "index < length (array_elements (useFieldState doc path))"
  shows "state_size doc (path @ [toString index]) < state_size doc path"
proof -
  from isArray_state [OF assms(1)] obtain xs
    where s: "useFieldState doc path = Some (FArray xs)" by blast
  with assms(2) have i: "index < length xs"
    by (simp add: array_elements_def)
  from array_child_state [OF s i] s size_array_element [of "xs ! index" xs] i
  show ?thesis
    by (simp add: state_size_def)
qed

text \<open>
  Every recursive call of \<open>NestedEditor\<close> is on a path whose state is smaller than the
  state of the caller's path.
\<close>

lemma NestedEditor_dom_all: "NestedEditor_dom (u, doc, path, isKeyMutable, isRtdb)"
proof (induction "state_size doc path" arbitrary: path isKeyMutable isRtdb rule: less_induct)
  case less
  show ?case
  proof (rule NestedEditor.domintros, goal_cases)
    case (1 childLeaf)
    then show ?case
      by (intro less) (simp add: map_call_decreases)
  next
    case (2 element index)
    then have "index < length (array_elements (useFieldState doc path))"
      by (auto simp: set_zip)
    with 2 show ?case
      by (intro less) (simp add: array_call_decreases)
  qed
qed

termination NestedEditor
  using NestedEditor_dom_all by auto

declare NestedEditor.simps [simp del]

subsection \<open>What one editor renders\<close>

lemma NestedEditor_fieldEditor:
  "rendered_fieldEditor (NestedEditor u doc p m r) = fieldEditorOf p (useFieldState doc p)"
  by (subst NestedEditor.simps) (simp add: Let_def)

lemma NestedEditor_select:
  "select (NestedEditor u doc p m r) = typeSelect u p r (useFieldState doc p)"
  by (subst NestedEditor.simps) (simp add: Let_def)

lemma NestedEditor_props:
  "props_path (NestedEditor u doc p m r) = p"
  "props_isKeyMutable (NestedEditor u doc p m r) = m"
  "props_isRtdb (NestedEditor u doc p m r) = r"
  by (subst NestedEditor.simps, simp add: Let_def)+

lemma NestedEditor_textField:
  "textField (NestedEditor u doc p m r) = keyField p m (lastFieldName u p)"
  by (subst NestedEditor.simps) (simp add: Let_def)

lemma NestedEditor_addArrayFieldButton:
  "addArrayFieldButton (NestedEditor u doc p m r) =
     (if isArray (useFieldState doc p)
      then Some (addField (p @ [toString (length p)]) (FString '''')) else None)"
  by (subst NestedEditor.simps) (simp add: Let_def)

lemma NestedEditor_childEditors:
  "rendered_childEditors (NestedEditor u doc p m r) =
     (if isMap (useFieldState doc p) then
        Some (map (\<lambda>childLeaf. NestedEditor u doc (p @ [childLeaf]) True None)
                  (Object_keys (useFieldState doc p)))
      else if isArray (useFieldState doc p) then
        Some (map (\<lambda>index. NestedEditor u doc (p @ [toString index]) False None)
                  [0..<length (array_elements (useFieldState doc p))])
      else None)"
proof -
  have "map (\<lambda>(value, index). f index) (zip xs [0..<length xs]) = map f [0..<length xs]"
    for f :: "nat \<Rightarrow> Rendered" and xs :: "FirestoreAny list"
    by (rule nth_equalityI) simp_all
  then show ?thesis
    by (subst NestedEditor.simps) (simp add: Let_def)
qed

text \<open>
  Claim C10. \<open>supportsEditing\<close> holds of a value exactly when \<open>getFieldType\<close> of the value
  is one of the nine Firestore field types. The RTDB flag plays no part in it: the type
  selector of an editor in RTDB mode offers the five types string, number, boolean, map and
  array only, and a value of one of the other four types still supports editing.
\<close>

theorem supportsEditing_iff_firestore_type:
  "(supportsEditing (getFieldType u) state \<longleftrightarrow>
      getFieldType u state \<in>
        {STRING, NUMBER, BOOLEAN, MAP, ARRAY, NULL, TIMESTAMP, GEOPOINT, REFERENCE}) \<and>
   sel_options (select (NestedEditor u doc p m (Some True))) =
     [STRING, NUMBER, BOOLEAN, MAP, ARRAY] \<and>
   (getFieldType u state \<in> {NULL, TIMESTAMP, GEOPOINT, REFERENCE} \<longrightarrow>
      supportsEditing (getFieldType u) state \<and>
      getFieldType u state \<notin> set (sel_options (select (NestedEditor u doc p m (Some True)))))"
  by (auto simp: supportsEditing_def supportedFieldTypeSet_def FIRESTORE_FIELD_TYPES_def
      RTDB_FIELD_TYPES_def NestedEditor_select typeSelect_def truthy_def)

text \<open>The statement at \<open>null\<close>, with the sample helpers.\<close>

theorem supportsEditing_iff_firestore_type_witness:
  "getFieldType sample_utils (Some FNull) \<in> {NULL, TIMESTAMP, GEOPOINT, REFERENCE} \<and>
   supportsEditing (getFieldType sample_utils) (Some FNull) \<and>
   getFieldType sample_utils (Some FNull) \<notin>
     set (sel_options (select (NestedEditor sample_utils sample_doc [''name''] True (Some True))))"
  using supportsEditing_iff_firestore_type
    [of sample_utils "Some FNull" sample_doc "[''name'']" True]
  by (simp add: sample_utils_def tagFieldType_def)

text \<open>
  Claim C1, amended. The leaf editor of a field is chosen by the type of its value: a
  string, number, boolean, geopoint, timestamp or reference gets exactly the editor of its
  type, with the value and the edit handler of the path. The six guards exclude one
  another, so at most one editor is rendered. A map, an array, \<open>null\<close> and a missing field
  get no leaf editor.
\<close>

theorem fieldEditor_type_dispatch:
  fixes u doc p m r
  defines "state \<equiv> useFieldState doc p"
    and "shown \<equiv> rendered_fieldEditor (NestedEditor u doc p m r)"
  shows
  "(isString state \<longrightarrow> shown = [StringEditor state (handleEditValue p)]) \<and>
   (isNumber state \<longrightarrow> shown = [NumberEditor state (handleEditValue p)]) \<and>
   (isBoolean state \<longrightarrow> shown = [BooleanEditor state (handleEditValue p)]) \<and>
   (isGeoPoint state \<longrightarrow> shown = [GeoPointEditor state (handleEditValue p)]) \<and>
   (isTimestamp state \<longrightarrow> shown = [TimestampEditor state (handleEditValue p)]) \<and>
   (isReference state \<longrightarrow> shown = [ReferenceEditor state (handleEditValue p)]) \<and>
   length (filter (\<lambda>guard. guard state)
             [isString, isNumber, isBoolean, isGeoPoint, isTimestamp, isReference]) \<le> 1 \<and>
   length shown \<le> 1 \<and>
   (isMap state \<or> isArray state \<or> state = Some FNull \<or> state = None \<longrightarrow> shown = [])"
  unfolding state_def shown_def NestedEditor_fieldEditor
  by (cases "useFieldState doc p" rule: option.exhaust; (cases "the (useFieldState doc p)")?)
    (simp_all add: fieldEditorOf_def isString_def isNumber_def isBoolean_def isGeoPoint_def
      isTimestamp_def isReference_def isMap_def isArray_def)

text \<open>
  The claim as first stated asks for a leaf editor for every value, \<open>null\<close>, maps and arrays
  included. In the document with the one field \<open>f\<close> holding \<open>null\<close>, the editor of the root
  field \<open>f\<close> renders an empty fragment.
\<close>

theorem fieldEditor_null_counterexample:
  "useFieldState (FMap [(''f'', FNull)]) [''f''] = Some FNull \<and>
   rendered_fieldEditor (NestedEditor sample_utils (FMap [(''f'', FNull)]) [''f''] True None) = []"
  by (simp add: NestedEditor_fieldEditor fieldEditorOf_def isString_def isNumber_def
      isBoolean_def isGeoPoint_def isTimestamp_def isReference_def)

text \<open>
  Claim C4. The child editors follow the state of the path. For a map there is one child per
  key, in the order of the keys, at the path extended by the key and with a mutable key
  (the key field is neither read-only nor disabled). For an array there is one child per
  index, at the path extended by the decimal string of the index and with an immutable key
  (the key field is read-only and disabled). For a primitive value there are no child
  editors.
\<close>

theorem childEditors_follow_state:
  "(useFieldState doc p = Some (FMap kvs) \<longrightarrow>
      (\<exists>cs. rendered_childEditors (NestedEditor u doc p m r) = Some cs \<and>
            length cs = length kvs \<and>
            (\<forall>i<length kvs.
               cs ! i = NestedEditor u doc (p @ [fst (kvs ! i)]) True None \<and>
               props_path (cs ! i) = p @ [fst (kvs ! i)] \<and>
               props_isKeyMutable (cs ! i) \<and>
               \<not> tf_readOnly (textField (cs ! i)) \<and>
               \<not> tf_disabled (textField (cs ! i))))) \<and>
   (useFieldState doc p = Some (FArray xs) \<longrightarrow>
      (\<exists>cs. rendered_childEditors (NestedEditor u doc p m r) = Some cs \<and>
            length cs = length xs \<and>
            (\<forall>i<length xs.
               cs ! i = NestedEditor u doc (p @ [toString i]) False None \<and>
               props_path (cs ! i) = p @ [toString i] \<and>
               \<not> props_isKeyMutable (cs ! i) \<and>
               tf_readOnly (textField (cs ! i)) \<and>
               tf_disabled (textField (cs ! i))))) \<and>
   (isPrimitive (useFieldState doc p) \<longrightarrow>
      rendered_childEditors (NestedEditor u doc p m r) = None)"
  by (simp add: NestedEditor_childEditors NestedEditor_props NestedEditor_textField
      keyField_def isMap_def isArray_def isPrimitive_def Object_keys_def array_elements_def)

text \<open>
  Claim C9. The add button of an array field at path \<open>p\<close> dispatches \<open>addField\<close> with the
  key \<open>toString (length p)\<close>, the number of path segments. Whenever the array has another
  number of elements than the path has segments, this key is not the next index of the
  array.
\<close>

theorem addArrayField_key_is_path_length:
  "useFieldState doc p = Some (FArray xs) \<Longrightarrow>
     addArrayFieldButton (NestedEditor u doc p m r) =
       Some (addField (p @ [toString (length p)]) (FString '''')) \<and>
     (length xs \<noteq> length p \<longrightarrow> toString (length p) \<noteq> toString (length xs))"
  using toString_inj [of "length p" "length xs"]
  by (auto simp: NestedEditor_addArrayFieldButton isArray_def)

lemma child_is_strict_subtree:
  assumes "rendered_childEditors (NestedEditor u doc p m r) = Some cs" and "c \<in> set cs"
  shows "\<exists>v w. useFieldState doc p = Some v \<and> useFieldState doc (props_path c) = Some w \<and>
           w \<in> set (subvalues v) \<and> size w < size v"
proof (cases "isMap (useFieldState doc p)")
  case True
  then obtain kvs where s: "useFieldState doc p = Some (FMap kvs)"
    using isMap_state by blast
  with assms(1) True
  have "cs = map (\<lambda>k. NestedEditor u doc (p @ [k]) True None) (map fst kvs)"
    by (simp add: NestedEditor_childEditors Object_keys_def del: map_map)
  with assms(2)
  have "c \<in> (\<lambda>k. NestedEditor u doc (p @ [k]) True None) ` set (map fst kvs)"
    by (simp only: set_map)
  then obtain k where k: "k \<in> set (map fst kvs)"
    and c: "c = NestedEditor u doc (p @ [k]) True None"
    by blast
  from map_child_state [OF s k] obtain w
    where w: "useFieldState doc (p @ [k]) = Some w" "(k, w) \<in> set kvs" by blast
  then have "w \<in> set (subvalues (FMap kvs))"
    by (force simp: subvalues_def)
  with s c w size_map_entry [OF w(2)] show ?thesis
    by (simp add: NestedEditor_props)
next
  case False
  with assms have a: "isArray (useFieldState doc p)"
    by (auto simp: NestedEditor_childEditors split: if_splits)
  then obtain xs where s: "useFieldState doc p = Some (FArray xs)"
    using isArray_state by blast
  with assms False a obtain i where i: "i < length xs"
    and c: "c = NestedEditor u doc (p @ [toString i]) False None"
    by (auto simp: NestedEditor_childEditors array_elements_def)
  from i have "xs ! i \<in> set (subvalues (FArray xs))"
    by (simp add: subvalues_def)
  with s c i array_child_state [OF s i] size_array_element [of "xs ! i" xs] show ?thesis
    by (simp add: NestedEditor_props)
qed

text \<open>
  Claim C7. The traversal terminates on every document and path: every chain of recursive
  calls of \<open>NestedEditor\<close> is finite (each argument is in the accessible part of the call
  relation). The reason is that every child editor is rendered at a path whose state is a
  field directly below the state of the parent's path, a map entry or an array element, and
  is therefore strictly smaller.
\<close>

theorem NestedEditor_terminates:
  "NestedEditor_dom (u, doc, p, m, r) \<and>
   (\<forall>cs c. rendered_childEditors (NestedEditor u doc p m r) = Some cs \<longrightarrow> c \<in> set cs \<longrightarrow>
      (\<exists>v w. useFieldState doc p = Some v \<and> useFieldState doc (props_path c) = Some w \<and>
             w \<in> set (subvalues v) \<and> size w < size v))"
  using NestedEditor_dom_all child_is_strict_subtree by blast

lemma toString_digits:
  "toString 0 = ''0''" "toString 1 = ''1''" "toString 2 = ''2''" "toString 3 = ''3''"
  "toString (Suc 0) = ''1''" "toString (Suc (Suc 0)) = ''2''"
  "toString (Suc (Suc (Suc 0))) = ''3''"
  by code_simp+

lemma sample_tags: "useFieldState sample_doc [''tags''] = Some (FArray [FString ''x'', FNull, FBoolean True])"
  by (simp add: sample_doc_def sample_entries_def)

text \<open>The array \<open>tags\<close> has three elements and a path of one segment: the key is \<open>1\<close>.\<close>

theorem addArrayField_key_is_path_length_witness:
  "useFieldState sample_doc [''tags''] = Some (FArray [FString ''x'', FNull, FBoolean True]) \<and>
   addArrayFieldButton (NestedEditor sample_utils sample_doc [''tags''] True None) =
     Some (addField [''tags'', ''1''] (FString '''')) \<and>
   toString 1 \<noteq> toString 3"
  using addArrayField_key_is_path_length [OF sample_tags, of sample_utils True None]
  by (simp add: sample_tags toString_digits)

lemma sample_fields_states:
  "useFieldState sample_fields [''s''] = Some (FString ''Ada'')"
  "useFieldState sample_fields [''n''] = Some (FNumber 3)"
  "useFieldState sample_fields [''b''] = Some (FBoolean False)"
  "useFieldState sample_fields [''g''] = Some (FGeoPoint 1 2)"
  "useFieldState sample_fields [''t''] = Some (FTimestamp 5 0)"
  "useFieldState sample_fields [''r''] = Some (FReference ''users/ada'')"
  "useFieldState sample_fields [''f''] = Some FNull"
  "useFieldState sample_fields [''m''] = Some (FMap [(''at'', FGeoPoint 1 2)])"
  "useFieldState sample_fields [''a''] = Some (FArray [FString ''x'', FNull])"
  by (simp_all add: sample_fields_def)

text \<open>
  The root fields of a document that holds one value of each of the six leaf types, a
  \<open>null\<close>, a map and an array.
\<close>

theorem fieldEditor_type_dispatch_witness:
  "(isString (useFieldState sample_fields [''s'']) \<and>
    rendered_fieldEditor (NestedEditor sample_utils sample_fields [''s''] True None) =
      [StringEditor (Some (FString ''Ada'')) (handleEditValue [''s''])]) \<and>
   (isNumber (useFieldState sample_fields [''n'']) \<and>
    rendered_fieldEditor (NestedEditor sample_utils sample_fields [''n''] True None) =
      [NumberEditor (Some (FNumber 3)) (handleEditValue [''n''])]) \<and>
   (isBoolean (useFieldState sample_fields [''b'']) \<and>
    rendered_fieldEditor (NestedEditor sample_utils sample_fields [''b''] True None) =
      [BooleanEditor (Some (FBoolean False)) (handleEditValue [''b''])]) \<and>
   (isGeoPoint (useFieldState sample_fields [''g'']) \<and>
    rendered_fieldEditor (NestedEditor sample_utils sample_fields [''g''] True None) =
      [GeoPointEditor (Some (FGeoPoint 1 2)) (handleEditValue [''g''])]) \<and>
   (isTimestamp (useFieldState sample_fields [''t'']) \<and>
    rendered_fieldEditor (NestedEditor sample_utils sample_fields [''t''] True None) =
      [TimestampEditor (Some (FTimestamp 5 0)) (handleEditValue [''t''])]) \<and>
   (isReference (useFieldState sample_fields [''r'']) \<and>
    rendered_fieldEditor (NestedEditor sample_utils sample_fields [''r''] True None) =
      [ReferenceEditor (Some (FReference ''users/ada'')) (handleEditValue [''r''])]) \<and>
   (useFieldState sample_fields [''f''] = Some FNull \<and>
    rendered_fieldEditor (NestedEditor sample_utils sample_fields [''f''] True None) = []) \<and>
   (isMap (useFieldState sample_fields [''m'']) \<and>
    rendered_fieldEditor (NestedEditor sample_utils sample_fields [''m''] True None) = []) \<and>
   (isArray (useFieldState sample_fields [''a'']) \<and>
    rendered_fieldEditor (NestedEditor sample_utils sample_fields [''a''] True None) = [])"
  using fieldEditor_type_dispatch [of sample_fields "[''s'']" sample_utils True None]
    fieldEditor_type_dispatch [of sample_fields "[''n'']" sample_utils True None]
    fieldEditor_type_dispatch [of sample_fields "[''b'']" sample_utils True None]
    fieldEditor_type_dispatch [of sample_fields "[''g'']" sample_utils True None]
    fieldEditor_type_dispatch [of sample_fields "[''t'']" sample_utils True None]
    fieldEditor_type_dispatch [of sample_fields "[''r'']" sample_utils True None]
    fieldEditor_type_dispatch [of sample_fields "[''f'']" sample_utils True None]
    fieldEditor_type_dispatch [of sample_fields "[''m'']" sample_utils True None]
    fieldEditor_type_dispatch [of sample_fields "[''a'']" sample_utils True None]
  by (simp add: sample_fields_states isString_def isNumber_def isBoolean_def isGeoPoint_def
      isTimestamp_def isReference_def isMap_def isArray_def)

lemma sample_root: "useFieldState sample_doc [] = Some (FMap sample_entries)"
  by (simp add: sample_doc_def)

lemma sample_name: "useFieldState sample_doc [''name''] = Some (FString ''Ada'')"
  by (simp add: sample_doc_def sample_entries_def)

text \<open>The sample document: its root map, the array \<open>tags\<close> and the string \<open>name\<close>.\<close>

theorem childEditors_follow_state_witness:
  "(useFieldState sample_doc [] = Some (FMap sample_entries) \<and>
    (\<exists>cs. rendered_childEditors (NestedEditor sample_utils sample_doc [] True None) = Some cs \<and>
          length cs = 3 \<and>
          cs ! 1 = NestedEditor sample_utils sample_doc [''tags''] True None \<and>
          props_path (cs ! 1) = [''tags''] \<and> props_isKeyMutable (cs ! 1))) \<and>
   (useFieldState sample_doc [''tags''] = Some (FArray [FString ''x'', FNull, FBoolean True]) \<and>
    (\<exists>cs. rendered_childEditors (NestedEditor sample_utils sample_doc [''tags''] True None) =
            Some cs \<and>
          length cs = 3 \<and>
          cs ! 2 = NestedEditor sample_utils sample_doc [''tags'', ''2''] False None \<and>
          props_path (cs ! 2) = [''tags'', ''2''] \<and> \<not> props_isKeyMutable (cs ! 2))) \<and>
   (isPrimitive (useFieldState sample_doc [''name'']) \<and>
    rendered_childEditors (NestedEditor sample_utils sample_doc [''name''] True None) = None)"
proof -
  have p: "isPrimitive (useFieldState sample_doc [''name''])"
    by (simp add: sample_name isPrimitive_def isMap_def isArray_def)
  have l: "length sample_entries = 3" and k: "fst (sample_entries ! 1) = ''tags''"
    by (simp_all add: sample_entries_def)
  from childEditors_follow_state
    [of sample_doc "[]" sample_entries sample_utils True None "[]"] sample_root
  obtain cs where
    "rendered_childEditors (NestedEditor sample_utils sample_doc [] True None) = Some cs"
    "length cs = length sample_entries"
    "\<forall>i<length sample_entries.
        cs ! i = NestedEditor sample_utils sample_doc ([] @ [fst (sample_entries ! i)]) True None \<and>
        props_path (cs ! i) = [] @ [fst (sample_entries ! i)] \<and> props_isKeyMutable (cs ! i) \<and>
        \<not> tf_readOnly (textField (cs ! i)) \<and> \<not> tf_disabled (textField (cs ! i))"
    by blast
  then have m: "\<exists>cs. rendered_childEditors (NestedEditor sample_utils sample_doc [] True None) =
        Some cs \<and> length cs = 3 \<and>
        cs ! 1 = NestedEditor sample_utils sample_doc [''tags''] True None \<and>
        props_path (cs ! 1) = [''tags''] \<and> props_isKeyMutable (cs ! 1)"
    using l k by (auto dest!: spec [of _ 1])
  from childEditors_follow_state
    [of sample_doc "[''tags'']" "[]" sample_utils True None "[FString ''x'', FNull, FBoolean True]"]
    sample_tags
  obtain cs where
    "rendered_childEditors (NestedEditor sample_utils sample_doc [''tags''] True None) = Some cs"
    "length cs = length [FString ''x'', FNull, FBoolean True]"
    "\<forall>i<length [FString ''x'', FNull, FBoolean True].
        cs ! i = NestedEditor sample_utils sample_doc ([''tags''] @ [toString i]) False None \<and>
        props_path (cs ! i) = [''tags''] @ [toString i] \<and> \<not> props_isKeyMutable (cs ! i) \<and>
        tf_readOnly (textField (cs ! i)) \<and> tf_disabled (textField (cs ! i))"
    by blast
  then have a: "\<exists>cs. rendered_childEditors (NestedEditor sample_utils sample_doc [''tags''] True None) =
        Some cs \<and> length cs = 3 \<and>
        cs ! 2 = NestedEditor sample_utils sample_doc [''tags'', ''2''] False None \<and>
        props_path (cs ! 2) = [''tags'', ''2''] \<and> \<not> props_isKeyMutable (cs ! 2)"
    by (auto dest!: spec [of _ 2] simp: toString_digits)
  from childEditors_follow_state
    [of sample_doc "[''name'']" "[]" sample_utils True None "[]"] p
  have "rendered_childEditors (NestedEditor sample_utils sample_doc [''name''] True None) = None"
    by blast
  with p m a sample_root sample_tags show ?thesis
    by blast
qed

text \<open>The three children of the array \<open>tags\<close>.\<close>

theorem NestedEditor_terminates_witness:
  "rendered_childEditors (NestedEditor sample_utils sample_doc [''tags''] True None) =
     Some [NestedEditor sample_utils sample_doc [''tags'', ''0''] False None,
           NestedEditor sample_utils sample_doc [''tags'', ''1''] False None,
           NestedEditor sample_utils sample_doc [''tags'', ''2''] False None] \<and>
   NestedEditor_dom (sample_utils, sample_doc, [''tags''], True, None) \<and>
   (\<exists>v w. useFieldState sample_doc [''tags''] = Some v \<and>
          useFieldState sample_doc
            (props_path (NestedEditor sample_utils sample_doc [''tags'', ''1''] False None)) =
            Some w \<and>
          w \<in> set (subvalues v) \<and> size w < size v)"
proof -
  have "[0..<3] = [0, 1, 2]"
    by (simp add: upt_rec)
  then have c: "rendered_childEditors (NestedEditor sample_utils sample_doc [''tags''] True None) =
     Some [NestedEditor sample_utils sample_doc [''tags'', ''0''] False None,
           NestedEditor sample_utils sample_doc [''tags'', ''1''] False None,
           NestedEditor sample_utils sample_doc [''tags'', ''2''] False None]"
    by (simp add: NestedEditor_childEditors sample_tags isMap_def isArray_def
        array_elements_def toString_digits)
  with NestedEditor_terminates [of sample_utils sample_doc "[''tags'']" True None]
  show ?thesis
    by simp
qed

section \<open>Properties of the evaluation details view\<close>

lemma connect_props_fields:
  "selectedEvaluation (connect_props getSelectedRequestEvaluation r dispatch state) =
     getSelectedRequestEvaluation state"
  "getEvaluationById (connect_props getSelectedRequestEvaluation r dispatch state) =
     Object r (\<lambda>selectedEvaluationId.
       dispatch (getRequestEvaluationById selectedEvaluationId))"
  by (simp_all add: connect_props_def mapStateToProps_def createStructuredSelector_def
      mapDispatchToProps_def PropsFromState.defs Props.defs)

text \<open>
  Claim C2. When the selected evaluation has a list of granular allow outcomes, the
  \<open>linesOutcome\<close> handed to the code view is a list of the same length whose entry at each
  position consists of exactly the \<open>line\<close> and the \<open>outcome\<close> of the granular outcome at
  that position. When there is no selected evaluation, or it has no granular allow outcomes,
  \<open>linesOutcome\<close> is undefined.
\<close>

theorem linesOutcome_follows_granularAllowOutcomes:
  "(selectedEvaluation props = Some evaluation \<and>
    granularAllowOutcomes (content evaluation) = Some outcomes \<longrightarrow>
      (\<exists>ls. code_linesOutcome
              (code (EvaluationDetails sampleRules useEvaluationCleanMainData props
                 evaluationId kept)) = Some ls \<and>
            length ls = length outcomes \<and>
            (\<forall>i<length outcomes.
               ls ! i = \<lparr>line = line (outcomes ! i), outcome = outcome (outcomes ! i)\<rparr>))) \<and>
   (selectedEvaluation props = None \<or>
    (\<exists>evaluation. selectedEvaluation props = Some evaluation \<and>
       granularAllowOutcomes (content evaluation) = None) \<longrightarrow>
      code_linesOutcome
        (code (EvaluationDetails sampleRules useEvaluationCleanMainData props
           evaluationId kept)) = None)"
  by (auto simp: EvaluationDetails_def linesOutcomeOf_def Let_def split: prod.splits)

text \<open>
  Claim C8. The rules text handed to the code view is the constant \<open>sampleRules\<close>, whatever
  the selected evaluation, the evaluation id, the cleaned data and the kept dependencies
  are: two renders with the same constant show the same rules text.
\<close>

theorem firestoreRules_is_sampleRules:
  "code_firestoreRules
     (code (EvaluationDetails sampleRules useEvaluationCleanMainData props evaluationId kept)) =
     sampleRules \<and>
   code_firestoreRules
     (code (EvaluationDetails sampleRules useEvaluationCleanMainData props evaluationId kept)) =
   code_firestoreRules
     (code (EvaluationDetails sampleRules useEvaluationCleanMainData' props' evaluationId' kept'))"
  by (simp add: EvaluationDetails_def Let_def split: prod.splits)

text \<open>
  Claim C6. \<open>mapStateToProps\<close> is the structured selector built from the one selector
  \<open>getSelectedRequestEvaluation\<close>, and for every store state the \<open>selectedEvaluation\<close>
  prop, also the one the connected component receives, is the result of that selector on
  the state.
\<close>

theorem selectedEvaluation_prop_is_selector_result:
  "mapStateToProps getSelectedRequestEvaluation =
     createStructuredSelector getSelectedRequestEvaluation \<and>
   selectedEvaluation (mapStateToProps getSelectedRequestEvaluation state) =
     getSelectedRequestEvaluation state \<and>
   selectedEvaluation (connect_props getSelectedRequestEvaluation r dispatch state) =
     getSelectedRequestEvaluation state"
  by (simp add: mapStateToProps_def createStructuredSelector_def connect_props_fields)

text \<open>
  Claim C3, amended. With the props of the connected component, the effect runs on the
  first render and on every render where the function \<open>getEvaluationById\<close>, the
  \<open>evaluationId\<close> of the route or the selected evaluation is not the one kept from the
  render before. When it runs, it makes one call, which dispatches
  \<open>getRequestEvaluationById\<close> with exactly that \<open>evaluationId\<close> as its only argument. On a
  render where the three dependencies are the kept ones nothing is dispatched.
\<close>

theorem fetch_when_dependencies_change:
  fixes sampleRules useEvaluationCleanMainData getSelectedRequestEvaluation r dispatch state
    evaluationId kept
  defines "rendering \<equiv>
      EvaluationDetails sampleRules useEvaluationCleanMainData
        (connect_props getSelectedRequestEvaluation r dispatch state) evaluationId kept"
    and "deps \<equiv> \<lparr>dep_getEvaluationById = r, dep_evaluationId = evaluationId,
        dep_selectedEvaluation = map_option ref (getSelectedRequestEvaluation state)\<rparr>"
  shows
  "kept_deps rendering = deps \<and>
   (kept \<noteq> Some deps \<longrightarrow>
      effect_calls rendering = [dispatch (getRequestEvaluationById (Some evaluationId))]) \<and>
   (kept = Some deps \<longrightarrow> effect_calls rendering = [])"
  unfolding rendering_def deps_def
  by (simp add: EvaluationDetails_def Let_def useEffect_def connect_props_fields
      split: prod.splits)

text \<open>
  The claim as first stated has the fetch dispatched on every render. The first render of
  the sample dispatches it; a second render with the same props and route does not.
\<close>

theorem fetch_skipped_counterexample:
  "effect_calls
     (EvaluationDetails ''rules'' sample_cleanMainData sample_props ''e1'' None) =
     [getRequestEvaluationById (Some ''e1'')] \<and>
   effect_calls
     (EvaluationDetails ''rules'' sample_cleanMainData sample_props ''e1''
        (Some (kept_deps
           (EvaluationDetails ''rules'' sample_cleanMainData sample_props ''e1'' None)))) = []"
  by (simp add: EvaluationDetails_def Let_def useEffect_def sample_cleanMainData_def
      sample_props_def connect_props_fields)

lemma sample_props_selected: "selectedEvaluation sample_props = Some sample_evaluation"
  by (simp add: sample_props_def connect_props_fields)

lemma sample_props_unselected_None: "selectedEvaluation sample_props_unselected = None"
  by (simp add: sample_props_unselected_def connect_props_fields)

lemma sample_evaluation_outcomes:
  "granularAllowOutcomes (content sample_evaluation) = Some sample_granular"
  by (simp add: sample_evaluation_def)

text \<open>The sample evaluation with two outcomes, and no selected evaluation.\<close>

theorem linesOutcome_follows_granularAllowOutcomes_witness:
  "(selectedEvaluation sample_props = Some sample_evaluation \<and>
    granularAllowOutcomes (content sample_evaluation) = Some sample_granular \<and>
    (\<exists>ls. code_linesOutcome
            (code (EvaluationDetails ''rules'' sample_cleanMainData sample_props ''e1'' None)) =
            Some ls \<and>
          length ls = length sample_granular \<and>
          (\<forall>i<length sample_granular.
             ls ! i = \<lparr>line = line (sample_granular ! i),
                       outcome = outcome (sample_granular ! i)\<rparr>))) \<and>
   (selectedEvaluation sample_props_unselected = None \<and>
    code_linesOutcome
      (code (EvaluationDetails ''rules'' sample_cleanMainData sample_props_unselected ''e1''
         None)) = None)"
  using linesOutcome_follows_granularAllowOutcomes
      [of sample_props sample_evaluation sample_granular "''rules''" sample_cleanMainData
        "''e1''" None]
    linesOutcome_follows_granularAllowOutcomes
      [of sample_props_unselected sample_evaluation sample_granular "''rules''"
        sample_cleanMainData "''e1''" None]
    sample_props_selected sample_props_unselected_None sample_evaluation_outcomes
  by simp

text \<open>The first render of the sample, and a render with the dependencies it kept.\<close>

theorem fetch_when_dependencies_change_witness:
  "kept_deps
     (EvaluationDetails ''rules'' sample_cleanMainData
        (connect_props id 1 id (Some sample_evaluation)) ''e1'' None) =
     \<lparr>dep_getEvaluationById = 1, dep_evaluationId = ''e1'', dep_selectedEvaluation = Some 7\<rparr> \<and>
   effect_calls
     (EvaluationDetails ''rules'' sample_cleanMainData
        (connect_props id 1 id (Some sample_evaluation)) ''e1'' None) =
     [getRequestEvaluationById (Some ''e1'')] \<and>
   effect_calls
     (EvaluationDetails ''rules'' sample_cleanMainData
        (connect_props id 1 id (Some sample_evaluation)) ''e1''
        (Some \<lparr>dep_getEvaluationById = 1, dep_evaluationId = ''e1'',
               dep_selectedEvaluation = Some 7\<rparr>)) = []"
  using fetch_when_dependencies_change
      [of "''rules''" sample_cleanMainData id 1 id "Some sample_evaluation" "''e1''" None]
    fetch_when_dependencies_change
      [of "''rules''" sample_cleanMainData id 1 id "Some sample_evaluation" "''e1''"
        "Some \<lparr>dep_getEvaluationById = 1, dep_evaluationId = ''e1'',
               dep_selectedEvaluation = Some 7\<rparr>"]
  by (simp add: sample_evaluation_def)

lemma effect_calls_only_fetch:
  "a \<in> set (effect_calls
      (EvaluationDetails sampleRules useEvaluationCleanMainData
        (connect_props getSelectedRequestEvaluation r dispatch state) evaluationId kept)) \<Longrightarrow>
   a = dispatch (getRequestEvaluationById (Some evaluationId))"
  by (simp add: EvaluationDetails_def Let_def useEffect_def connect_props_fields
      split: prod.splits if_splits)

end
